theory Spec2Isabelle
  imports Main
begin

section \<open>JavaScript values, exceptions and settings\<close>

text \<open>
  The extension is TypeScript running on a JavaScript engine. A value whose type the
  source leaves open (the answer of the capability probe, the answer of a protocol
  request) is a \<open>jsvalue\<close>; \<open>truthy\<close> is the test that \<open>if (v)\<close> performs.
\<close>

datatype jsvalue = JUndefined | JNull | JBool bool | JNum int | JStr string | JObject

fun truthy :: "jsvalue \<Rightarrow> bool" where
  "truthy JUndefined = False"
| "truthy JNull = False"
| "truthy (JBool b) = b"
| "truthy (JNum n) = (n \<noteq> 0)"
| "truthy (JStr s) = (s \<noteq> [])"
| "truthy JObject = True"

text \<open>
  Everything that can be thrown: the engine's \<open>TypeError\<close> (a method call on
  \<open>undefined\<close>), the \<open>UserCancelledError\<close> of the utility library with its step
  name, and any other error raised by a collaborator (probe, start, stop, request).
\<close>

datatype error = TypeError | UserCancelledError string | Thrown string

text \<open>
  The settings the language-service code reads, at the TypeScript types it reads them
  at: \<open>string | undefined\<close> for \<open>docker.dockerPath\<close>, \<open>DockerLsp.User\<close> and
  \<open>DockerLsp.Workspace\<close> (the latter two are cast with \<open>as string\<close>), and a boolean
  for \<open>docker.enableDockerComposeLanguageService\<close>. \<open>None\<close> is \<open>undefined\<close>.
\<close>

record Settings =
  docker_dockerPath :: "string option"
  docker_enableDockerComposeLanguageService :: "bool option"
  DockerLsp_User :: "string option"
  DockerLsp_Workspace :: "string option"

text \<open>\<open>!!v\<close> on a \<open>string | undefined\<close>: \<open>undefined\<close> and \<open>""\<close> are falsy.\<close>

fun truthy_string :: "string option \<Rightarrow> bool" where
  "truthy_string None = False"
| "truthy_string (Some s) = (s \<noteq> [])"

text \<open>\<open>v || d\<close> on a \<open>string | undefined\<close>.\<close>

definition or_else :: "string option \<Rightarrow> string \<Rightarrow> string" where
  "or_else v d = (case v of None \<Rightarrow> d | Some s \<Rightarrow> if truthy_string (Some s) then s else d)"

text \<open>\<open>config.get(key, defaultValue)\<close>: the default stands in for \<open>undefined\<close>.\<close>

definition get_or_default :: "'a option \<Rightarrow> 'a \<Rightarrow> 'a" where
  "get_or_default v d = (case v of None \<Rightarrow> d | Some x \<Rightarrow> x)"

section \<open>Language clients\<close>

datatype TransportKind = stdio | ipc | pipe | socket

text \<open>
  One entry of \<open>ServerOptions\<close>: an executable (\<open>command\<close>, \<open>transport\<close>, \<open>args\<close>) or
  a Node module (\<open>module\<close>, \<open>transport\<close>, optional \<open>args\<close>, optional
  \<open>options.execArgv\<close>).
\<close>

datatype ServerLaunch =
    Executable string TransportKind "string list"
  | NodeModule string TransportKind "string list option" "string list option"

record ServerOptions =
  run :: ServerLaunch
  debug :: ServerLaunch

record DocumentFilter =
  language :: string
  scheme :: "string option"

record TextDocument =
  languageId :: string
  uriScheme :: string

datatype ClientState = Created | Running | StartFailed | Stopping | Stopped

record LanguageClient =
  clientId :: string
  clientName :: string
  serverOptions :: ServerOptions
  documentSelector :: "DocumentFilter list"
  clientState :: ClientState

text \<open>A document filter matches on the language id and, when it names one, the scheme.\<close>

definition filter_matches :: "DocumentFilter \<Rightarrow> TextDocument \<Rightarrow> bool" where
  "filter_matches f d =
     (language f = languageId d \<and> (case scheme f of None \<Rightarrow> True | Some sc \<Rightarrow> sc = uriScheme d))"

definition selects :: "DocumentFilter list \<Rightarrow> TextDocument \<Rightarrow> bool" where
  "selects sel d = list_ex (\<lambda>f. filter_matches f d) sel"

definition DOCUMENT_SELECTOR :: "DocumentFilter list" where
  "DOCUMENT_SELECTOR = [\<lparr>language = ''dockerfile'', scheme = Some ''file''\<rparr>]"

section \<open>The extension's state and its observable effects\<close>

datatype RuntimeClient = DockerClient | ComposeClient

text \<open>
  What the extension does to its collaborators, in program order. The first argument
  of the client effects is the id the client was constructed with.
\<close>

datatype Effect =
    NewLanguageClient string
  | Start string
  | Stop string
  | SendNotification string string jsvalue
  | SendRequest string string "string option list"
  | Info string string
  | RegisterCommand string
  | RegisterTelemetryListener string
  | RegisterRuntimeClient RuntimeClient
  | Reconfigure RuntimeClient
  | LogDockerEnvironment
  | SetEnvironmentVariableContributions
  | IsLspInstalled
  | HandledError string error
  | UncaughtError error

text \<open>The four callbacks subscribed to \<open>vscode.workspace.onDidChangeConfiguration\<close>.\<close>

datatype Listener =
    docker_environment_changed
  | docker_command_changed
  | Configuration_initialize
  | native_configuration_changed

text \<open>
  The three module-level client variables (\<open>undefined\<close> until assigned), the
  configuration listeners in subscription order, and the effects so far.
\<close>

record ExtensionState =
  dockerfileLanguageClient :: "LanguageClient option"
  composeLanguageClient :: "LanguageClient option"
  nativeClient :: "LanguageClient option"
  configListeners :: "Listener list"
  effects :: "Effect list"

definition initialState :: ExtensionState where
  "initialState =
     \<lparr>dockerfileLanguageClient = None, composeLanguageClient = None, nativeClient = None,
      configListeners = [], effects = []\<rparr>"

text \<open>
  What the extension's surroundings answer: the capability probe
  \<open>ext.runWithDefaults(client => client.isLspInstalled())\<close>, \<open>start()\<close> and \<open>stop()\<close> of
  each client (by id), the \<open>docker/serverInfo/raw\<close> request, the extension context's
  \<open>asAbsolutePath\<close>, the platform's path separator and the configuration.
\<close>

record World =
  isLspInstalled :: "error + jsvalue"
  startOutcome :: "string \<Rightarrow> error + unit"
  stopOutcome :: "string \<Rightarrow> error + unit"
  serverInfoRaw :: "error + jsvalue"
  asAbsolutePath :: "string \<Rightarrow> string"
  pathSep :: string
  configuration :: Settings

text \<open>
  A change event: its \<open>affectsConfiguration\<close> method, and the text
  \<open>JSON.stringify\<close> gives for it.
\<close>

record ConfigurationChangeEvent =
  affectsConfiguration :: "string \<Rightarrow> bool"
  eventJson :: string

definition emit :: "Effect \<Rightarrow> ExtensionState \<Rightarrow> ExtensionState" where
  "emit e s = s\<lparr>effects := effects s @ [e]\<rparr>"

definition subscribe :: "Listener \<Rightarrow> ExtensionState \<Rightarrow> ExtensionState" where
  "subscribe l s = s\<lparr>configListeners := configListeners s @ [l]\<rparr>"

text \<open>
  \<open>callWithTelemetryAndErrorHandling\<close> is imported from the utility library
  \<open>@microsoft/vscode-azext-utils\<close>. Its contract: run the callback; an error the
  callback throws is handled (recorded, here as \<open>HandledError\<close>) and the call returns
  normally, unless the callback set \<open>errorHandling.rethrow\<close> and the error is not a
  \<open>UserCancelledError\<close>, in which case the error is thrown on.
\<close>

fun isUserCancelledError :: "error \<Rightarrow> bool" where
  "isUserCancelledError (UserCancelledError _) = True"
| "isUserCancelledError _ = False"

definition callWithTelemetryAndErrorHandling ::
  "string \<Rightarrow> bool \<Rightarrow> (ExtensionState \<Rightarrow> (error + unit) \<times> ExtensionState)
     \<Rightarrow> ExtensionState \<Rightarrow> (error + unit) \<times> ExtensionState" where
  "callWithTelemetryAndErrorHandling callbackId rethrow callback s =
     (case callback s of
        (Inr u, s') \<Rightarrow> (Inr u, s')
      | (Inl e, s') \<Rightarrow>
          if rethrow \<and> \<not> isUserCancelledError e then (Inl e, emit (HandledError callbackId e) s')
          else (Inr (), emit (HandledError callbackId e) s'))"

section \<open>Activation\<close>

subsection \<open>Backend discovery\<close>

text \<open>
  The body of the \<open>try\<close> block of \<open>discoverDockerLsp\<close>: awaiting the probe throws
  what the probe threw; \<open>Some True\<close> is \<open>return true\<close>, \<open>None\<close> is falling out of
  the block.
\<close>

definition discoverDockerLsp_try :: "error + jsvalue \<Rightarrow> error + bool option" where
  "discoverDockerLsp_try probe =
     (case probe of
        Inl e \<Rightarrow> Inl e
      | Inr result \<Rightarrow> if truthy result then Inr (Some True) else Inr None)"

text \<open>\<open>catch (e) {}\<close> swallows; whatever did not return inside the block ends at \<open>return false\<close>.\<close>

definition discoverDockerLsp :: "error + jsvalue \<Rightarrow> error + bool" where
  "discoverDockerLsp probe =
     (case discoverDockerLsp_try probe of
        Inr (Some b) \<Rightarrow> Inr b
      | Inr None \<Rightarrow> Inr False
      | Inl e \<Rightarrow> Inr False)"

subsection \<open>Environment contributions and runtime clients\<close>

definition registerEnvironmentVariableContributions :: "ExtensionState \<Rightarrow> ExtensionState" where
  "registerEnvironmentVariableContributions s =
     subscribe docker_environment_changed (emit SetEnvironmentVariableContributions s)"

definition registerDockerClients :: "ExtensionState \<Rightarrow> ExtensionState" where
  "registerDockerClients s =
     subscribe docker_command_changed
       (emit (RegisterRuntimeClient ComposeClient) (emit (RegisterRuntimeClient DockerClient) s))"

subsection \<open>The native client\<close>

text \<open>
  Lines 278 to 290: the argument list starts as \<open>["lsp", "listen"]\<close>; each of the two
  identity settings is pushed with its flag when \<open>!!v && v != ""\<close>.
\<close>

definition pushFlag :: "string \<Rightarrow> string option \<Rightarrow> string list \<Rightarrow> string list" where
  "pushFlag flag v args =
     (case v of
        None \<Rightarrow> args
      | Some x \<Rightarrow> if truthy_string (Some x) \<and> x \<noteq> '''' then args @ [flag, x] else args)"

definition nativeArgs :: "Settings \<Rightarrow> string list" where
  "nativeArgs cfg =
     pushFlag ''--workspace'' (DockerLsp_Workspace cfg)
       (pushFlag ''--user'' (DockerLsp_User cfg) [''lsp'', ''listen''])"

definition nativeServerOptions :: "Settings \<Rightarrow> ServerOptions" where
  "nativeServerOptions cfg =
     (let dockerCommand = or_else (docker_dockerPath cfg) ''docker'';
          serverModule = dockerCommand;
          args = nativeArgs cfg
      in \<lparr>run = Executable serverModule stdio args, debug = Executable serverModule stdio args\<rparr>)"

definition newNativeClient :: "Settings \<Rightarrow> LanguageClient" where
  "newNativeClient cfg =
     \<lparr>clientId = ''dockerLanguageClient'', clientName = ''Docker LSP Client'',
      serverOptions = nativeServerOptions cfg, documentSelector = DOCUMENT_SELECTOR,
      clientState = Created\<rparr>"

text \<open>
  The callback of \<open>activateDockerNativeLanguageClient\<close>: construct the client and
  assign it to \<open>nativeClient\<close>, register the two commands, subscribe the configuration
  listener, then \<open>await nativeClient.start()\<close>; after a successful start, log, request
  \<open>docker/serverInfo/raw\<close> and read two fields of the answer (a \<open>TypeError\<close> when the
  answer is \<open>undefined\<close> or \<open>null\<close>).
\<close>

definition nativeCallback :: "World \<Rightarrow> ExtensionState \<Rightarrow> (error + unit) \<times> ExtensionState" where
  "nativeCallback w s =
     (let c = newNativeClient (configuration w);
          s1 = emit (NewLanguageClient (clientId c)) (s\<lparr>nativeClient := Some c\<rparr>);
          s2 = emit (RegisterCommand ''dockerLspClient.login'')
                 (emit (RegisterCommand ''dockerLspClient.serverInfoShow'') s1);
          s3 = subscribe native_configuration_changed s2;
          s4 = emit (Start (clientId c)) s3
      in case startOutcome w (clientId c) of
           Inl e \<Rightarrow> (Inl e, s4\<lparr>nativeClient := Some (c\<lparr>clientState := StartFailed\<rparr>)\<rparr>)
         | Inr _ \<Rightarrow>
             (let s5 = emit (Info (clientId c) ''Client started...'')
                         (s4\<lparr>nativeClient := Some (c\<lparr>clientState := Running\<rparr>)\<rparr>);
                  s6 = emit (SendRequest (clientId c) ''docker/serverInfo/raw'' []) s5
              in case serverInfoRaw w of
                   Inl e \<Rightarrow> (Inl e, s6)
                 | Inr r \<Rightarrow>
                     if r = JUndefined \<or> r = JNull then (Inl TypeError, s6)
                     else (Inr (), emit (Info (clientId c) ''REPL port: '')
                                     (emit (Info (clientId c) ''Log path: '') s6))))"

definition activateDockerNativeLanguageClient :: "World \<Rightarrow> ExtensionState \<Rightarrow> ExtensionState" where
  "activateDockerNativeLanguageClient w s =
     snd (callWithTelemetryAndErrorHandling ''docker.nativelanguageclient.activate'' False
            (nativeCallback w) s)"

subsection \<open>The bundled Dockerfile client\<close>

text \<open>\<open>path.join\<close> of plain segments, then the extension context's \<open>asAbsolutePath\<close>.\<close>

fun path_join :: "string \<Rightarrow> string list \<Rightarrow> string" where
  "path_join sep [] = ''.''"
| "path_join sep [x] = x"
| "path_join sep (x # y # ys) = x @ sep @ path_join sep (y # ys)"

definition bundledServerOptions :: "World \<Rightarrow> string \<Rightarrow> ServerOptions" where
  "bundledServerOptions w package =
     (let serverModule = asAbsolutePath w (path_join (pathSep w) [''dist'', package, ''lib'', ''server.js''])
      in \<lparr>run = NodeModule serverModule ipc (Some [''--node-ipc'']) None,
          debug = NodeModule serverModule ipc None (Some [''--nolazy'', ''--inspect=6009''])\<rparr>)"

definition newDockerfileClient :: "World \<Rightarrow> LanguageClient" where
  "newDockerfileClient w =
     \<lparr>clientId = ''dockerfile-langserver'', clientName = ''Dockerfile Language Server'',
      serverOptions = bundledServerOptions w ''dockerfile-language-server-nodejs'',
      documentSelector = DOCUMENT_SELECTOR, clientState = Created\<rparr>"

text \<open>
  The callback of \<open>activateDockerfileLanguageClient\<close>: construct and assign the client,
  \<open>await\<close> its start, and only then \<open>Configuration.initialize\<close>, which subscribes the
  notifying listener.
\<close>

definition dockerfileCallback :: "World \<Rightarrow> ExtensionState \<Rightarrow> (error + unit) \<times> ExtensionState" where
  "dockerfileCallback w s =
     (let c = newDockerfileClient w;
          s1 = emit (NewLanguageClient (clientId c)) (s\<lparr>dockerfileLanguageClient := Some c\<rparr>);
          s2 = emit (Start (clientId c)) s1
      in case startOutcome w (clientId c) of
           Inl e \<Rightarrow> (Inl e, s2\<lparr>dockerfileLanguageClient := Some (c\<lparr>clientState := StartFailed\<rparr>)\<rparr>)
         | Inr _ \<Rightarrow>
             (Inr (), subscribe Configuration_initialize
                        (s2\<lparr>dockerfileLanguageClient := Some (c\<lparr>clientState := Running\<rparr>)\<rparr>)))"

definition activateDockerfileLanguageClient :: "World \<Rightarrow> ExtensionState \<Rightarrow> ExtensionState" where
  "activateDockerfileLanguageClient w s =
     snd (callWithTelemetryAndErrorHandling ''docker.languageclient.activate'' False
            (dockerfileCallback w) s)"

subsection \<open>The Compose client\<close>

definition newComposeClient :: "World \<Rightarrow> LanguageClient" where
  "newComposeClient w =
     \<lparr>clientId = ''compose-language-service'', clientName = ''Docker Compose Language Server'',
      serverOptions = bundledServerOptions w ''compose-language-service'',
      documentSelector = [\<lparr>language = ''dockercompose'', scheme = None\<rparr>],
      clientState = Created\<rparr>"

text \<open>
  The callback of \<open>activateComposeLanguageClient\<close>: the configuration check comes
  first and throws; otherwise construct and assign the client, register the telemetry
  listener and \<open>await\<close> the start.
\<close>

definition composeCallback :: "World \<Rightarrow> ExtensionState \<Rightarrow> (error + unit) \<times> ExtensionState" where
  "composeCallback w s =
     (if \<not> get_or_default (docker_enableDockerComposeLanguageService (configuration w)) True
      then (Inl (UserCancelledError ''languageServiceDisabled''), s)
      else
        (let c = newComposeClient w;
             s1 = emit (NewLanguageClient (clientId c)) (s\<lparr>composeLanguageClient := Some c\<rparr>);
             s2 = emit (RegisterTelemetryListener ''compose-langserver-event'') s1;
             s3 = emit (Start (clientId c)) s2
         in case startOutcome w (clientId c) of
              Inl e \<Rightarrow> (Inl e, s3\<lparr>composeLanguageClient := Some (c\<lparr>clientState := StartFailed\<rparr>)\<rparr>)
            | Inr _ \<Rightarrow> (Inr (), s3\<lparr>composeLanguageClient := Some (c\<lparr>clientState := Running\<rparr>)\<rparr>)))"

definition activateComposeLanguageClient :: "World \<Rightarrow> ExtensionState \<Rightarrow> ExtensionState" where
  "activateComposeLanguageClient w s =
     snd (callWithTelemetryAndErrorHandling ''docker.composelanguageclient.activate'' False
            (composeCallback w) s)"

subsection \<open>Telemetry events of the Compose server\<close>

text \<open>
  \<open>Object.assign(target, source)\<close> sets every key of the source on the target; a
  \<open>null\<close> or \<open>undefined\<close> source is skipped.
\<close>

definition Object_assign :: "('k \<rightharpoonup> 'v) \<Rightarrow> ('k \<rightharpoonup> 'v) option \<Rightarrow> ('k \<rightharpoonup> 'v)" where
  "Object_assign target source = (case source of None \<Rightarrow> target | Some src \<Rightarrow> target ++ src)"

record 'n TelemetryEvent =
  eventName :: string
  eventSuppressAll :: "bool option"
  eventSuppressIfSuccessful :: "bool option"
  eventMeasurements :: "(string \<rightharpoonup> 'n) option"
  eventProperties :: "(string \<rightharpoonup> string) option"

record 'n Telemetry =
  properties :: "string \<rightharpoonup> string"
  measurements :: "string \<rightharpoonup> 'n"
  suppressAll :: "bool option"
  suppressIfSuccessful :: "bool option"

text \<open>The listener registered as \<open>compose-langserver-event\<close>, on \<open>context.telemetry\<close>.\<close>

definition composeTelemetryListener :: "'n Telemetry \<Rightarrow> 'n TelemetryEvent \<Rightarrow> 'n Telemetry" where
  "composeTelemetryListener t evtArgs =
     (let t1 = t\<lparr>properties := (properties t)(''langServerEventName'' \<mapsto> eventName evtArgs)\<rparr>;
          t2 = t1\<lparr>suppressAll := eventSuppressAll evtArgs\<rparr>;
          t3 = t2\<lparr>suppressIfSuccessful := eventSuppressIfSuccessful evtArgs\<rparr>;
          t4 = t3\<lparr>measurements := Object_assign (measurements t3) (eventMeasurements evtArgs)\<rparr>
      in t4\<lparr>properties := Object_assign (properties t4) (eventProperties evtArgs)\<rparr>)"

subsection \<open>activateInternal\<close>

text \<open>
  The \<open>docker.activate\<close> callback, which sets \<open>errorHandling.rethrow\<close>: the steps
  that subscribe configuration listeners, the probe and the client activations. The
  registrations in between (completion provider, runtime managers, file system
  provider, trees, commands, status bar, debug and task providers) belong to other
  modules and are left out. The client activations are started without being awaited;
  they touch different variables, and the model runs each to its end in call order.
\<close>

definition activateCallback :: "World \<Rightarrow> ExtensionState \<Rightarrow> (error + unit) \<times> ExtensionState" where
  "activateCallback w s =
     (let s1 = registerEnvironmentVariableContributions s;
          s2 = registerDockerClients s1;
          s3 = emit IsLspInstalled s2
      in case discoverDockerLsp (isLspInstalled w) of
           Inl e \<Rightarrow> (Inl e, s3)
         | Inr b \<Rightarrow>
             (let s4 = (if b then activateDockerNativeLanguageClient w s3
                        else activateDockerfileLanguageClient w s3)
              in (Inr (), activateComposeLanguageClient w s4)))"

definition activateInternal :: "World \<Rightarrow> ExtensionState \<Rightarrow> (error + unit) \<times> ExtensionState" where
  "activateInternal w s = callWithTelemetryAndErrorHandling ''docker.activate'' True (activateCallback w) s"

text \<open>The state of the extension once activated in a fresh extension host.\<close>

definition activated :: "World \<Rightarrow> ExtensionState" where
  "activated w = snd (activateInternal w initialState)"

text \<open>
  The sessions that exist: the clients the three variables hold. A document is served
  by the clients among them that are running and whose selector matches it.
\<close>

definition clientOf :: "LanguageClient option \<Rightarrow> LanguageClient list" where
  "clientOf v = (case v of None \<Rightarrow> [] | Some c \<Rightarrow> [c])"

definition dockerfileCapableSessions :: "ExtensionState \<Rightarrow> LanguageClient list" where
  "dockerfileCapableSessions s = clientOf (nativeClient s) @ clientOf (dockerfileLanguageClient s)"

definition sessions :: "ExtensionState \<Rightarrow> LanguageClient list" where
  "sessions s = dockerfileCapableSessions s @ clientOf (composeLanguageClient s)"

definition serving :: "LanguageClient list \<Rightarrow> TextDocument \<Rightarrow> LanguageClient list" where
  "serving cs d = filter (\<lambda>c. clientState c = Running \<and> selects (documentSelector c) d) cs"

section \<open>Configuration changes\<close>

text \<open>
  What each subscribed callback does with one change event. \<open>cfg\<close> is the
  configuration as read when the event is handled. A callback that calls a method of an
  unassigned client variable throws a \<open>TypeError\<close> into the event emitter.
\<close>

definition listenerEffects ::
  "Settings \<Rightarrow> ConfigurationChangeEvent \<Rightarrow> ExtensionState \<Rightarrow> Listener \<Rightarrow> Effect list" where
  "listenerEffects cfg e s l =
     (case l of
        docker_environment_changed \<Rightarrow>
          if affectsConfiguration e ''docker.environment''
          then [LogDockerEnvironment, SetEnvironmentVariableContributions] else []
      | docker_command_changed \<Rightarrow>
          (if affectsConfiguration e ''docker.dockerPath'' then [Reconfigure DockerClient] else [])
          @ (if affectsConfiguration e ''docker.composeCommand'' then [Reconfigure ComposeClient] else [])
      | Configuration_initialize \<Rightarrow>
          (case dockerfileLanguageClient s of
             None \<Rightarrow> [UncaughtError TypeError]
           | Some c \<Rightarrow> [SendNotification (clientId c) ''workspace/didChangeConfiguration'' JNull])
      | native_configuration_changed \<Rightarrow>
          (case nativeClient s of
             None \<Rightarrow> [UncaughtError TypeError]
           | Some c \<Rightarrow>
               Info (clientId c) (''configuration change:  '' @ eventJson e)
               # (if affectsConfiguration e ''DockerLsp.User'' \<or> affectsConfiguration e ''DockerLsp.Workspace''
                  then [Info (clientId c) ''update login info'',
                        SendRequest (clientId c) ''docker/login'' [DockerLsp_User cfg, DockerLsp_Workspace cfg]]
                  else [])))"

definition runListener ::
  "Settings \<Rightarrow> ConfigurationChangeEvent \<Rightarrow> Listener \<Rightarrow> ExtensionState \<Rightarrow> ExtensionState" where
  "runListener cfg e l s = fold emit (listenerEffects cfg e s l) s"

text \<open>One change event: every subscribed callback runs, in subscription order.\<close>

definition onDidChangeConfiguration ::
  "Settings \<Rightarrow> ConfigurationChangeEvent \<Rightarrow> ExtensionState \<Rightarrow> ExtensionState" where
  "onDidChangeConfiguration cfg e s = fold (runListener cfg e) (configListeners s) s"

text \<open>The effects a step added to the trace.\<close>

definition newEffects :: "ExtensionState \<Rightarrow> ExtensionState \<Rightarrow> Effect list" where
  "newEffects s s' = drop (length (effects s)) (effects s')"

text \<open>The state after activation and any number of change events, each with the
  configuration read when it is handled.\<close>

definition afterEvents :: "World \<Rightarrow> (Settings \<times> ConfigurationChangeEvent) list \<Rightarrow> ExtensionState" where
  "afterEvents w evs = fold (\<lambda>(cfg, e). onDidChangeConfiguration cfg e) evs (activated w)"

text \<open>The effects that create, start or stop a session; the notifications; the
  reconfigurations of a runtime client.\<close>

fun isLifecycle :: "Effect \<Rightarrow> bool" where
  "isLifecycle (NewLanguageClient _) = True"
| "isLifecycle (Start _) = True"
| "isLifecycle (Stop _) = True"
| "isLifecycle _ = False"

fun isNotification :: "Effect \<Rightarrow> bool" where
  "isNotification (SendNotification _ _ _) = True"
| "isNotification _ = False"

fun isReconfigure :: "Effect \<Rightarrow> bool" where
  "isReconfigure (Reconfigure _) = True"
| "isReconfigure _ = False"

fun isRequest :: "Effect \<Rightarrow> bool" where
  "isRequest (SendRequest _ _ _) = True"
| "isRequest _ = False"

section \<open>Deactivation\<close>

text \<open>\<open>c.stop()\<close> on an assigned client: the call is made and the client is stopping.\<close>

definition stopping :: "LanguageClient \<Rightarrow> LanguageClient" where
  "stopping c = c\<lparr>clientState := Stopping\<rparr>"

definition stopped :: "LanguageClient \<Rightarrow> LanguageClient" where
  "stopped c = c\<lparr>clientState := Stopped\<rparr>"

text \<open>
  \<open>await Promise.all(ps)\<close>: fulfilled when every promise is, rejected with a
  rejection otherwise (the model takes the first in array order).
\<close>

definition Promise_all :: "(error + unit) list \<Rightarrow> error + unit" where
  "Promise_all rs = (case filter isl rs of [] \<Rightarrow> Inr () | r # _ \<Rightarrow> r)"

text \<open>
  The callback of \<open>deactivateInternal\<close>, after the disposal of the account listener
  (another module's, left out). The array literal evaluates its three \<open>stop()\<close> calls
  left to right before \<open>Promise.all\<close> is called; a call on a variable that is still
  \<open>undefined\<close> throws a \<open>TypeError\<close> there and then. When the awaited
  \<open>Promise.all\<close> is fulfilled, all three clients have stopped.
\<close>

definition deactivateCallback :: "World \<Rightarrow> ExtensionState \<Rightarrow> (error + unit) \<times> ExtensionState" where
  "deactivateCallback w s =
     (case dockerfileLanguageClient s of
        None \<Rightarrow> (Inl TypeError, s)
      | Some d \<Rightarrow>
          (let s1 = emit (Stop (clientId d)) (s\<lparr>dockerfileLanguageClient := Some (stopping d)\<rparr>)
           in case composeLanguageClient s1 of
                None \<Rightarrow> (Inl TypeError, s1)
              | Some c \<Rightarrow>
                  (let s2 = emit (Stop (clientId c)) (s1\<lparr>composeLanguageClient := Some (stopping c)\<rparr>)
                   in case nativeClient s2 of
                        None \<Rightarrow> (Inl TypeError, s2)
                      | Some n \<Rightarrow>
                          (let s3 = emit (Stop (clientId n)) (s2\<lparr>nativeClient := Some (stopping n)\<rparr>)
                           in case Promise_all (map (stopOutcome w) [clientId d, clientId c, clientId n]) of
                                Inl e \<Rightarrow> (Inl e, s3)
                              | Inr _ \<Rightarrow>
                                  (Inr (), s3\<lparr>dockerfileLanguageClient := Some (stopped d),
                                              composeLanguageClient := Some (stopped c),
                                              nativeClient := Some (stopped n)\<rparr>)))))"

definition deactivateInternal :: "World \<Rightarrow> ExtensionState \<Rightarrow> (error + unit) \<times> ExtensionState" where
  "deactivateInternal w s = callWithTelemetryAndErrorHandling ''docker.deactivate'' False (deactivateCallback w) s"

section \<open>Conditions and concrete inputs used in the statements\<close>

text \<open>The probe answered, and with a truthy value.\<close>

definition nativeAvailable :: "World \<Rightarrow> bool" where
  "nativeAvailable w = (case isLspInstalled w of Inl e \<Rightarrow> False | Inr v \<Rightarrow> truthy v)"

text \<open>The value of \<open>config.get('enableDockerComposeLanguageService', true)\<close>.\<close>

definition composeEnabled :: "World \<Rightarrow> bool" where
  "composeEnabled w = get_or_default (docker_enableDockerComposeLanguageService (configuration w)) True"

text \<open>
  The specification's wording of the identity flags: a flag is present exactly when the
  setting is defined and is not the empty string, and then carries the setting's value.
\<close>

definition specFlag :: "string \<Rightarrow> string option \<Rightarrow> string list" where
  "specFlag flag v = (if v \<noteq> None \<and> v \<noteq> Some '''' then [flag, the v] else [])"

text \<open>The entries of an event's map, none when the event carries no map.\<close>

definition entries :: "('k \<rightharpoonup> 'v) option \<Rightarrow> ('k \<rightharpoonup> 'v)" where
  "entries m = (case m of None \<Rightarrow> Map.empty | Some x \<Rightarrow> x)"

text \<open>
  A configuration with nothing set; a world in which the probe answers as given and
  every start, stop and request succeeds; the change event of a set of keys.
\<close>

definition defaultSettings :: Settings where
  "defaultSettings =
     \<lparr>docker_dockerPath = None, docker_enableDockerComposeLanguageService = None,
      DockerLsp_User = None, DockerLsp_Workspace = None\<rparr>"

definition quietWorld :: "error + jsvalue \<Rightarrow> Settings \<Rightarrow> World" where
  "quietWorld probe cfg =
     \<lparr>isLspInstalled = probe, startOutcome = (\<lambda>_. Inr ()), stopOutcome = (\<lambda>_. Inr ()),
      serverInfoRaw = Inr JObject, asAbsolutePath = (\<lambda>p. ''/ext/'' @ p), pathSep = ''/'',
      configuration = cfg\<rparr>"

definition changeOf :: "string list \<Rightarrow> ConfigurationChangeEvent" where
  "changeOf keys = \<lparr>affectsConfiguration = (\<lambda>k. k \<in> set keys), eventJson = ''{}''\<rparr>"

section \<open>Facts about activation\<close>


lemma discover_total:
  "discoverDockerLsp probe = Inr (case probe of Inl e \<Rightarrow> False | Inr v \<Rightarrow> truthy v)"
  by (simp add: discoverDockerLsp_def discoverDockerLsp_try_def split: sum.split)

lemma call_state:
  "snd (callWithTelemetryAndErrorHandling cid r cb s) =
     (case fst (cb s) of Inr _ \<Rightarrow> snd (cb s) | Inl e \<Rightarrow> emit (HandledError cid e) (snd (cb s)))"
  by (simp add: callWithTelemetryAndErrorHandling_def split: prod.split sum.split)

lemma native_fields:
  "nativeClient (activateDockerNativeLanguageClient w s) =
     Some ((newNativeClient (configuration w))
             \<lparr>clientState := (case startOutcome w ''dockerLanguageClient'' of
                                 Inl _ \<Rightarrow> StartFailed | Inr _ \<Rightarrow> Running)\<rparr>)"
  "dockerfileLanguageClient (activateDockerNativeLanguageClient w s) = dockerfileLanguageClient s"
  "composeLanguageClient (activateDockerNativeLanguageClient w s) = composeLanguageClient s"
  "configListeners (activateDockerNativeLanguageClient w s) = configListeners s @ [native_configuration_changed]"
  "filter isLifecycle (effects (activateDockerNativeLanguageClient w s)) =
     filter isLifecycle (effects s) @ [NewLanguageClient ''dockerLanguageClient'', Start ''dockerLanguageClient'']"
  by (simp_all add: activateDockerNativeLanguageClient_def call_state nativeCallback_def Let_def
        emit_def subscribe_def newNativeClient_def split: sum.split)

lemma dockerfile_fields:
  "dockerfileLanguageClient (activateDockerfileLanguageClient w s) =
     Some ((newDockerfileClient w)
             \<lparr>clientState := (case startOutcome w ''dockerfile-langserver'' of
                                 Inl _ \<Rightarrow> StartFailed | Inr _ \<Rightarrow> Running)\<rparr>)"
  "nativeClient (activateDockerfileLanguageClient w s) = nativeClient s"
  "composeLanguageClient (activateDockerfileLanguageClient w s) = composeLanguageClient s"
  "configListeners (activateDockerfileLanguageClient w s) =
     configListeners s @ (case startOutcome w ''dockerfile-langserver'' of
                            Inl _ \<Rightarrow> [] | Inr _ \<Rightarrow> [Configuration_initialize])"
  "filter isLifecycle (effects (activateDockerfileLanguageClient w s)) =
     filter isLifecycle (effects s) @ [NewLanguageClient ''dockerfile-langserver'', Start ''dockerfile-langserver'']"
  by (simp_all add: activateDockerfileLanguageClient_def call_state dockerfileCallback_def Let_def
        emit_def subscribe_def newDockerfileClient_def split: sum.split)


lemma compose_fields:
  "composeLanguageClient (activateComposeLanguageClient w s) =
     (if composeEnabled w
      then Some ((newComposeClient w)
             \<lparr>clientState := (case startOutcome w ''compose-language-service'' of
                                Inl _ \<Rightarrow> StartFailed | Inr _ \<Rightarrow> Running)\<rparr>)
      else composeLanguageClient s)"
  "nativeClient (activateComposeLanguageClient w s) = nativeClient s"
  "dockerfileLanguageClient (activateComposeLanguageClient w s) = dockerfileLanguageClient s"
  "configListeners (activateComposeLanguageClient w s) = configListeners s"
  "filter isLifecycle (effects (activateComposeLanguageClient w s)) =
     filter isLifecycle (effects s) @
       (if composeEnabled w
        then [NewLanguageClient ''compose-language-service'', Start ''compose-language-service'']
        else [])"
  by (simp_all add: activateComposeLanguageClient_def call_state composeCallback_def Let_def
        emit_def subscribe_def newComposeClient_def composeEnabled_def split: sum.split)


lemma activated_eq:
  "activated w =
     activateComposeLanguageClient w
       ((if nativeAvailable w then activateDockerNativeLanguageClient w else activateDockerfileLanguageClient w)
          (emit IsLspInstalled (registerDockerClients (registerEnvironmentVariableContributions initialState))))"
  by (simp add: activated_def activateInternal_def activateCallback_def callWithTelemetryAndErrorHandling_def
        discover_total nativeAvailable_def Let_def)

lemma base_fields:
  "nativeClient (emit IsLspInstalled (registerDockerClients (registerEnvironmentVariableContributions initialState))) = None"
  "dockerfileLanguageClient (emit IsLspInstalled (registerDockerClients (registerEnvironmentVariableContributions initialState))) = None"
  "composeLanguageClient (emit IsLspInstalled (registerDockerClients (registerEnvironmentVariableContributions initialState))) = None"
  "configListeners (emit IsLspInstalled (registerDockerClients (registerEnvironmentVariableContributions initialState)))
     = [docker_environment_changed, docker_command_changed]"
  "filter isLifecycle (effects (emit IsLspInstalled (registerDockerClients (registerEnvironmentVariableContributions initialState)))) = []"
  by (simp_all add: registerDockerClients_def registerEnvironmentVariableContributions_def emit_def subscribe_def initialState_def)

lemma activated_fields:
  "nativeClient (activated w) =
     (if nativeAvailable w
      then Some ((newNativeClient (configuration w))
             \<lparr>clientState := (case startOutcome w ''dockerLanguageClient'' of
                                 Inl _ \<Rightarrow> StartFailed | Inr _ \<Rightarrow> Running)\<rparr>)
      else None)"
  "dockerfileLanguageClient (activated w) =
     (if nativeAvailable w then None
      else Some ((newDockerfileClient w)
             \<lparr>clientState := (case startOutcome w ''dockerfile-langserver'' of
                                 Inl _ \<Rightarrow> StartFailed | Inr _ \<Rightarrow> Running)\<rparr>))"
  "composeLanguageClient (activated w) =
     (if composeEnabled w
      then Some ((newComposeClient w)
             \<lparr>clientState := (case startOutcome w ''compose-language-service'' of
                                Inl _ \<Rightarrow> StartFailed | Inr _ \<Rightarrow> Running)\<rparr>)
      else None)"
  "configListeners (activated w) =
     [docker_environment_changed, docker_command_changed] @
     (if nativeAvailable w then [native_configuration_changed]
      else (case startOutcome w ''dockerfile-langserver'' of Inl _ \<Rightarrow> [] | Inr _ \<Rightarrow> [Configuration_initialize]))"
  "filter isLifecycle (effects (activated w)) =
     (if nativeAvailable w
      then [NewLanguageClient ''dockerLanguageClient'', Start ''dockerLanguageClient'']
      else [NewLanguageClient ''dockerfile-langserver'', Start ''dockerfile-langserver''])
     @ (if composeEnabled w
        then [NewLanguageClient ''compose-language-service'', Start ''compose-language-service'']
        else [])"
  by (simp_all add: activated_eq compose_fields native_fields dockerfile_fields base_fields)

lemma discover_native:
  "(discoverDockerLsp (isLspInstalled w) = Inr True) = nativeAvailable w"
  "(discoverDockerLsp (isLspInstalled w) = Inr False) = (\<not> nativeAvailable w)"
  by (simp_all add: discover_total nativeAvailable_def)

lemma selector_native: "documentSelector (newNativeClient cfg) = DOCUMENT_SELECTOR"
  by (simp add: newNativeClient_def)

lemma selector_dockerfile: "documentSelector (newDockerfileClient w) = DOCUMENT_SELECTOR"
  by (simp add: newDockerfileClient_def)

section \<open>Facts about configuration changes\<close>

lemma fold_emit: "fold emit xs s = s\<lparr>effects := effects s @ xs\<rparr>"
  by (induction xs arbitrary: s) (simp_all add: emit_def)

lemma listenerEffects_effects: "listenerEffects cfg e (s\<lparr>effects := es\<rparr>) = listenerEffects cfg e s"
proof (rule ext)
  fix l
  show "listenerEffects cfg e (s\<lparr>effects := es\<rparr>) l = listenerEffects cfg e s l"
    by (cases l) (simp_all add: listenerEffects_def)
qed

lemma fold_runListener:
  "fold (runListener cfg e) ls s =
     s\<lparr>effects := effects s @ concat (map (listenerEffects cfg e s) ls)\<rparr>"
proof (induction ls arbitrary: s)
  case Nil
  show ?case by simp
next
  case (Cons l ls)
  have step: "runListener cfg e l s = s\<lparr>effects := effects s @ listenerEffects cfg e s l\<rparr>"
    by (simp add: runListener_def fold_emit)
  show ?case
    by (simp add: step Cons.IH listenerEffects_effects)
qed

lemma onDidChangeConfiguration_eq:
  "onDidChangeConfiguration cfg e s =
     s\<lparr>effects := effects s @ concat (map (listenerEffects cfg e s) (configListeners s))\<rparr>"
  by (simp add: onDidChangeConfiguration_def fold_runListener)

lemma onDidChangeConfiguration_fields:
  "nativeClient (onDidChangeConfiguration cfg e s) = nativeClient s"
  "dockerfileLanguageClient (onDidChangeConfiguration cfg e s) = dockerfileLanguageClient s"
  "composeLanguageClient (onDidChangeConfiguration cfg e s) = composeLanguageClient s"
  "configListeners (onDidChangeConfiguration cfg e s) = configListeners s"
  "newEffects s (onDidChangeConfiguration cfg e s) = concat (map (listenerEffects cfg e s) (configListeners s))"
  by (simp_all add: onDidChangeConfiguration_eq newEffects_def)

lemma fold_events_fields:
  "nativeClient (fold (\<lambda>(cfg, e). onDidChangeConfiguration cfg e) evs s) = nativeClient s
   \<and> dockerfileLanguageClient (fold (\<lambda>(cfg, e). onDidChangeConfiguration cfg e) evs s) = dockerfileLanguageClient s
   \<and> composeLanguageClient (fold (\<lambda>(cfg, e). onDidChangeConfiguration cfg e) evs s) = composeLanguageClient s
   \<and> configListeners (fold (\<lambda>(cfg, e). onDidChangeConfiguration cfg e) evs s) = configListeners s"
  by (induction evs arbitrary: s) (simp_all add: onDidChangeConfiguration_fields split: prod.split)

lemma afterEvents_fields:
  "nativeClient (afterEvents w evs) = nativeClient (activated w)"
  "dockerfileLanguageClient (afterEvents w evs) = dockerfileLanguageClient (activated w)"
  "composeLanguageClient (afterEvents w evs) = composeLanguageClient (activated w)"
  "configListeners (afterEvents w evs) = configListeners (activated w)"
  by (simp_all add: afterEvents_def fold_events_fields)

lemma sessions_cong:
  "nativeClient s' = nativeClient s \<Longrightarrow> dockerfileLanguageClient s' = dockerfileLanguageClient s
   \<Longrightarrow> composeLanguageClient s' = composeLanguageClient s \<Longrightarrow> sessions s' = sessions s"
  by (simp add: sessions_def dockerfileCapableSessions_def)

lemma listenerEffects_afterEvents:
  "listenerEffects cfg e (afterEvents w evs) = listenerEffects cfg e (activated w)"
proof (rule ext)
  fix l
  show "listenerEffects cfg e (afterEvents w evs) l = listenerEffects cfg e (activated w) l"
    by (cases l) (simp_all add: listenerEffects_def afterEvents_fields)
qed

lemma newEffects_afterEvents:
  "newEffects (afterEvents w evs) (onDidChangeConfiguration cfg e (afterEvents w evs)) =
     listenerEffects cfg e (activated w) docker_environment_changed
     @ listenerEffects cfg e (activated w) docker_command_changed
     @ (if nativeAvailable w then listenerEffects cfg e (activated w) native_configuration_changed
        else (case startOutcome w ''dockerfile-langserver'' of
                Inl _ \<Rightarrow> []
              | Inr _ \<Rightarrow> listenerEffects cfg e (activated w) Configuration_initialize))"
  by (simp add: onDidChangeConfiguration_fields afterEvents_fields listenerEffects_afterEvents
        activated_fields split: sum.split)

lemma clientIds:
  "clientId (newNativeClient c) = ''dockerLanguageClient''"
  "clientId (newDockerfileClient w) = ''dockerfile-langserver''"
  "clientId (newComposeClient w) = ''compose-language-service''"
  by (simp_all add: newNativeClient_def newDockerfileClient_def newComposeClient_def)

lemma listenerEffects_activated:
  "listenerEffects cfg e (activated w) docker_environment_changed =
     (if affectsConfiguration e ''docker.environment''
      then [LogDockerEnvironment, SetEnvironmentVariableContributions] else [])"
  "listenerEffects cfg e (activated w) docker_command_changed =
     (if affectsConfiguration e ''docker.dockerPath'' then [Reconfigure DockerClient] else [])
     @ (if affectsConfiguration e ''docker.composeCommand'' then [Reconfigure ComposeClient] else [])"
  "nativeAvailable w \<Longrightarrow> listenerEffects cfg e (activated w) native_configuration_changed =
     Info ''dockerLanguageClient'' (''configuration change:  '' @ eventJson e)
     # (if affectsConfiguration e ''DockerLsp.User'' \<or> affectsConfiguration e ''DockerLsp.Workspace''
        then [Info ''dockerLanguageClient'' ''update login info'',
              SendRequest ''dockerLanguageClient'' ''docker/login'' [DockerLsp_User cfg, DockerLsp_Workspace cfg]]
        else [])"
  "\<not> nativeAvailable w \<Longrightarrow> listenerEffects cfg e (activated w) Configuration_initialize =
     [SendNotification ''dockerfile-langserver'' ''workspace/didChangeConfiguration'' JNull]"
  by (simp_all add: listenerEffects_def activated_fields clientIds)

section \<open>Backend discovery\<close>

text \<open>
  Claim C3. \<open>discoverDockerLsp\<close> never raises. Whatever the capability probe does
  (it answers with some value, or it throws: a missing binary, a non-zero exit, a
  malformed response and a timeout all reach the caller as a thrown error), the
  function returns a boolean, and that boolean is true exactly when the probe
  answered and its answer is truthy.
\<close>

theorem discoverDockerLsp_never_raises:
  "\<exists>b. discoverDockerLsp probe = Inr b \<and> b = (\<exists>v. probe = Inr v \<and> truthy v)"
  by (cases probe) (auto simp add: discover_total)

section \<open>Selection of the Dockerfile session\<close>

lemma selects_DOCUMENT_SELECTOR:
  "selects DOCUMENT_SELECTOR d = (languageId d = ''dockerfile'' \<and> uriScheme d = ''file'')"
  by (auto simp add: selects_def DOCUMENT_SELECTOR_def filter_matches_def)

lemma selects_compose:
  "selects (documentSelector (newComposeClient w)) d = (languageId d = ''dockercompose'')"
  by (auto simp add: selects_def newComposeClient_def filter_matches_def)

text \<open>
  Claim C1 says that Dockerfile documents are served by exactly one of the two
  Dockerfile sessions, never neither. Both clients declare the selector
  \<open>{ language: 'dockerfile', scheme: 'file' }\<close>, so a Dockerfile that is not a file
  (an untitled one) is served by no session, whichever backend was chosen; and when
  the chosen client's \<open>start()\<close> rejects, the error is handled, no other backend is
  tried, and a Dockerfile on disk is served by no session either.
\<close>

theorem dockerfile_document_served_by_none_counterexample:
  "serving (sessions (activated (quietWorld (Inr (JBool True)) defaultSettings)))
     \<lparr>languageId = ''dockerfile'', uriScheme = ''untitled''\<rparr> = []
   \<and> serving (sessions (activated (quietWorld (Inr (JBool False)) defaultSettings)))
     \<lparr>languageId = ''dockerfile'', uriScheme = ''untitled''\<rparr> = []
   \<and> serving (sessions (activated
        ((quietWorld (Inr (JBool True)) defaultSettings)\<lparr>startOutcome := (\<lambda>_. Inl (Thrown ''initialize failed''))\<rparr>)))
     \<lparr>languageId = ''dockerfile'', uriScheme = ''file''\<rparr> = []"
  by (simp add: serving_def sessions_def dockerfileCapableSessions_def clientOf_def activated_fields
        nativeAvailable_def composeEnabled_def quietWorld_def defaultSettings_def get_or_default_def
        selector_native selector_dockerfile selects_DOCUMENT_SELECTOR selects_compose)

text \<open>
  Claim C1 as amended. On every activation exactly one of the native and the fallback
  Dockerfile client is constructed and has \<open>start()\<close> called: the native one if and
  only if discovery returned true, the fallback one if and only if it returned false.
  The sessions created and started are, in order, that one and then the Compose one,
  which depends on the Compose setting only and not on the probe; no session is
  created twice. A document is served by one of the two Dockerfile clients exactly
  when its language is \<open>dockerfile\<close>, its scheme is \<open>file\<close> and the start of the
  chosen client succeeded, and by none of the two otherwise; no document is served by
  more than one session.
\<close>

theorem activation_selects_one_dockerfile_session:
  "filter isLifecycle (effects (activated w)) =
     (if discoverDockerLsp (isLspInstalled w) = Inr True
      then [NewLanguageClient ''dockerLanguageClient'', Start ''dockerLanguageClient'']
      else [NewLanguageClient ''dockerfile-langserver'', Start ''dockerfile-langserver''])
     @ (if composeEnabled w
        then [NewLanguageClient ''compose-language-service'', Start ''compose-language-service'']
        else [])
   \<and> (nativeClient (activated w) \<noteq> None) = (discoverDockerLsp (isLspInstalled w) = Inr True)
   \<and> (dockerfileLanguageClient (activated w) \<noteq> None) = (discoverDockerLsp (isLspInstalled w) = Inr False)
   \<and> composeLanguageClient (activated (w\<lparr>isLspInstalled := probe\<rparr>)) = composeLanguageClient (activated w)
   \<and> length (dockerfileCapableSessions (activated w)) = 1
   \<and> length (serving (dockerfileCapableSessions (activated w)) d) =
       (if languageId d = ''dockerfile'' \<and> uriScheme d = ''file''
           \<and> (\<exists>u. startOutcome w (if discoverDockerLsp (isLspInstalled w) = Inr True
                                      then ''dockerLanguageClient'' else ''dockerfile-langserver'') = Inr u)
        then 1 else 0)
   \<and> length (serving (sessions (activated w)) d) \<le> 1"
proof -
  have life: "filter isLifecycle (effects (activated w)) =
     (if discoverDockerLsp (isLspInstalled w) = Inr True
      then [NewLanguageClient ''dockerLanguageClient'', Start ''dockerLanguageClient'']
      else [NewLanguageClient ''dockerfile-langserver'', Start ''dockerfile-langserver''])
     @ (if composeEnabled w
        then [NewLanguageClient ''compose-language-service'', Start ''compose-language-service'']
        else [])"
    by (simp add: activated_fields discover_native)
  have vars: "(nativeClient (activated w) \<noteq> None) = (discoverDockerLsp (isLspInstalled w) = Inr True)"
    "(dockerfileLanguageClient (activated w) \<noteq> None) = (discoverDockerLsp (isLspInstalled w) = Inr False)"
    by (simp_all add: activated_fields discover_native)
  have comp: "composeLanguageClient (activated (w\<lparr>isLspInstalled := probe\<rparr>)) = composeLanguageClient (activated w)"
    by (simp add: activated_fields composeEnabled_def newComposeClient_def bundledServerOptions_def)
  have one: "length (dockerfileCapableSessions (activated w)) = 1"
    by (simp add: activated_fields dockerfileCapableSessions_def clientOf_def)
  have serve: "length (serving (dockerfileCapableSessions (activated w)) d) =
       (if languageId d = ''dockerfile'' \<and> uriScheme d = ''file''
           \<and> (\<exists>u. startOutcome w (if discoverDockerLsp (isLspInstalled w) = Inr True
                                      then ''dockerLanguageClient'' else ''dockerfile-langserver'') = Inr u)
        then 1 else 0)"
  proof (cases "nativeAvailable w")
    case True
    then show ?thesis
      by (cases "startOutcome w ''dockerLanguageClient''")
         (simp_all add: serving_def dockerfileCapableSessions_def clientOf_def activated_fields
            discover_native selector_native selects_DOCUMENT_SELECTOR)
  next
    case False
    then show ?thesis
      by (cases "startOutcome w ''dockerfile-langserver''")
         (simp_all add: serving_def dockerfileCapableSessions_def clientOf_def activated_fields
            discover_native selector_dockerfile selects_DOCUMENT_SELECTOR)
  qed
  have most: "length (serving (sessions (activated w)) d) \<le> 1"
  proof -
    have split: "serving (sessions (activated w)) d =
        serving (dockerfileCapableSessions (activated w)) d @ serving (clientOf (composeLanguageClient (activated w))) d"
      by (simp add: serving_def sessions_def)
    have c: "length (serving (clientOf (composeLanguageClient (activated w))) d)
               \<le> (if languageId d = ''dockercompose'' then 1 else 0)"
      by (simp add: serving_def clientOf_def activated_fields selects_compose)
    show ?thesis
    proof (cases "languageId d = ''dockerfile''")
      case True
      with c have "length (serving (clientOf (composeLanguageClient (activated w))) d) = 0" by simp
      with serve show ?thesis by (simp add: split)
    next
      case False
      with serve have "length (serving (dockerfileCapableSessions (activated w)) d) = 0" by simp
      moreover from c have "length (serving (clientOf (composeLanguageClient (activated w))) d) \<le> 1"
        by (simp split: if_splits)
      ultimately show ?thesis by (simp add: split)
    qed
  qed
  from life vars comp one serve most show ?thesis by blast
qed

lemma sessions_onDidChangeConfiguration:
  "sessions (onDidChangeConfiguration cfg e s) = sessions s"
  by (rule sessions_cong) (simp_all add: onDidChangeConfiguration_fields)

lemma dockerfile_running:
  "(map_option clientState (dockerfileLanguageClient (afterEvents w evs)) = Some Running) =
     (\<not> nativeAvailable w \<and> (\<exists>u. startOutcome w ''dockerfile-langserver'' = Inr u))"
  by (cases "startOutcome w ''dockerfile-langserver''") (simp_all add: afterEvents_fields activated_fields)

section \<open>Configuration changes and the runtime clients\<close>

text \<open>
  Claim C7. After activation and any number of earlier change events, a change event
  makes the container-engine client reconfigure exactly once if it affects
  \<open>docker.dockerPath\<close> and not at all otherwise, and the orchestrator client
  reconfigure exactly once if it affects \<open>docker.composeCommand\<close> and not at all
  otherwise; these are the only reconfigurations, and the clients are the ones
  registered at activation: none is registered anew. The event creates, starts and
  stops no language-server session, and the sessions after it are the sessions before
  it.
\<close>

theorem path_setting_change_reconfigures_runtime_client_only:
  "filter isReconfigure (newEffects (afterEvents w evs) (onDidChangeConfiguration cfg e (afterEvents w evs))) =
     (if affectsConfiguration e ''docker.dockerPath'' then [Reconfigure DockerClient] else [])
     @ (if affectsConfiguration e ''docker.composeCommand'' then [Reconfigure ComposeClient] else [])
   \<and> list_all (\<lambda>x. x \<noteq> RegisterRuntimeClient DockerClient \<and> x \<noteq> RegisterRuntimeClient ComposeClient)
        (newEffects (afterEvents w evs) (onDidChangeConfiguration cfg e (afterEvents w evs)))
   \<and> filter isLifecycle (newEffects (afterEvents w evs) (onDidChangeConfiguration cfg e (afterEvents w evs))) = []
   \<and> sessions (onDidChangeConfiguration cfg e (afterEvents w evs)) = sessions (afterEvents w evs)"
proof (cases "nativeAvailable w")
  case True
  then show ?thesis
    by (simp add: newEffects_afterEvents listenerEffects_activated sessions_onDidChangeConfiguration)
next
  case False
  then show ?thesis
    by (cases "startOutcome w ''dockerfile-langserver''")
       (simp_all add: newEffects_afterEvents listenerEffects_activated sessions_onDidChangeConfiguration)
qed

section \<open>Configuration changes and the fallback session\<close>

text \<open>
  Claim C9. After activation and any number of earlier change events, every change
  event, whatever it affects, sends exactly one \<open>workspace/didChangeConfiguration\<close>
  notification with \<open>settings: null\<close> to the fallback Dockerfile client when that
  client is running, and no notification at all otherwise. The notification carries
  the fallback client's id, which is neither the native nor the Compose client's, so
  those two are never notified.
\<close>

theorem fallback_session_notified_on_every_change:
  "filter isNotification (newEffects (afterEvents w evs) (onDidChangeConfiguration cfg e (afterEvents w evs))) =
     (if map_option clientState (dockerfileLanguageClient (afterEvents w evs)) = Some Running
      then [SendNotification ''dockerfile-langserver'' ''workspace/didChangeConfiguration'' JNull]
      else [])
   \<and> list_all (\<lambda>c. clientId c \<noteq> ''dockerfile-langserver'')
        (clientOf (nativeClient (afterEvents w evs)) @ clientOf (composeLanguageClient (afterEvents w evs)))"
proof -
  have ids: "list_all (\<lambda>c. clientId c \<noteq> ''dockerfile-langserver'')
        (clientOf (nativeClient (afterEvents w evs)) @ clientOf (composeLanguageClient (afterEvents w evs)))"
    by (simp add: afterEvents_fields activated_fields clientOf_def clientIds)
  have sent: "filter isNotification (newEffects (afterEvents w evs) (onDidChangeConfiguration cfg e (afterEvents w evs))) =
     (if map_option clientState (dockerfileLanguageClient (afterEvents w evs)) = Some Running
      then [SendNotification ''dockerfile-langserver'' ''workspace/didChangeConfiguration'' JNull]
      else [])"
  proof (cases "nativeAvailable w")
    case True
    then show ?thesis
      unfolding dockerfile_running
      by (simp add: newEffects_afterEvents listenerEffects_activated)
  next
    case False
    then show ?thesis
      unfolding dockerfile_running
      by (cases "startOutcome w ''dockerfile-langserver''")
         (simp_all add: newEffects_afterEvents listenerEffects_activated)
  qed
  from sent ids show ?thesis by (rule conjI)
qed

section \<open>Configuration changes and backend selection\<close>

text \<open>
  Claim C5 says that a change of \<open>docker.dockerPath\<close>, \<open>DockerLsp.User\<close> or
  \<open>DockerLsp.Workspace\<close> restarts the owning session (stop, discovery again, start
  of a replacement). The code has no restart. With the native session running, a
  change of \<open>DockerLsp.User\<close> produces two log lines and one \<open>docker/login\<close>
  request, and a change of \<open>docker.dockerPath\<close> a reconfiguration of the
  container-engine client and one log line: nothing is stopped and nothing is started.
\<close>

theorem identity_setting_change_sends_login_counterexample:
  "newEffects (activated (quietWorld (Inr (JBool True)) defaultSettings))
     (onDidChangeConfiguration (defaultSettings\<lparr>DockerLsp_User := Some ''alice''\<rparr>) (changeOf [''DockerLsp.User''])
        (activated (quietWorld (Inr (JBool True)) defaultSettings)))
   = [Info ''dockerLanguageClient'' ''configuration change:  {}'',
      Info ''dockerLanguageClient'' ''update login info'',
      SendRequest ''dockerLanguageClient'' ''docker/login'' [Some ''alice'', None]]
   \<and> newEffects (activated (quietWorld (Inr (JBool True)) defaultSettings))
     (onDidChangeConfiguration (defaultSettings\<lparr>docker_dockerPath := Some ''/usr/local/bin/docker''\<rparr>) (changeOf [''docker.dockerPath''])
        (activated (quietWorld (Inr (JBool True)) defaultSettings)))
   = [Reconfigure DockerClient, Info ''dockerLanguageClient'' ''configuration change:  {}'']"
proof -
  have n: "nativeAvailable (quietWorld (Inr (JBool True)) defaultSettings)"
    by (simp add: nativeAvailable_def quietWorld_def)
  have ls: "configListeners (activated (quietWorld (Inr (JBool True)) defaultSettings)) =
      [docker_environment_changed, docker_command_changed, native_configuration_changed]"
    by (simp add: activated_fields n)
  have ws: "DockerLsp_Workspace defaultSettings = None"
    by (simp add: defaultSettings_def)
  show ?thesis
    by (simp add: onDidChangeConfiguration_fields ls listenerEffects_activated n changeOf_def ws)
qed

text \<open>
  Claim C5 as amended. After activation and any number of earlier change events, a
  change event creates, starts and stops no session and does not probe again; the
  sessions stay as they were. The only request it sends is \<open>docker/login\<close> with the
  current \<open>DockerLsp.User\<close> and \<open>DockerLsp.Workspace\<close>, to the native client, sent
  exactly when that client exists and the event affects one of the two settings. The
  container-engine client is reconfigured exactly when the event affects
  \<open>docker.dockerPath\<close>.
\<close>

theorem selection_setting_change_restarts_no_session:
  "filter isLifecycle (newEffects (afterEvents w evs) (onDidChangeConfiguration cfg e (afterEvents w evs))) = []
   \<and> IsLspInstalled \<notin> set (newEffects (afterEvents w evs) (onDidChangeConfiguration cfg e (afterEvents w evs)))
   \<and> sessions (onDidChangeConfiguration cfg e (afterEvents w evs)) = sessions (afterEvents w evs)
   \<and> filter isRequest (newEffects (afterEvents w evs) (onDidChangeConfiguration cfg e (afterEvents w evs))) =
       (if nativeClient (afterEvents w evs) \<noteq> None
           \<and> (affectsConfiguration e ''DockerLsp.User'' \<or> affectsConfiguration e ''DockerLsp.Workspace'')
        then [SendRequest ''dockerLanguageClient'' ''docker/login'' [DockerLsp_User cfg, DockerLsp_Workspace cfg]]
        else [])
   \<and> (Reconfigure DockerClient \<in> set (newEffects (afterEvents w evs) (onDidChangeConfiguration cfg e (afterEvents w evs))))
       = affectsConfiguration e ''docker.dockerPath''"
proof (cases "nativeAvailable w")
  case True
  then show ?thesis
    by (simp add: newEffects_afterEvents listenerEffects_activated sessions_onDidChangeConfiguration
          afterEvents_fields activated_fields)
next
  case False
  then show ?thesis
    by (cases "startOutcome w ''dockerfile-langserver''")
       (simp_all add: newEffects_afterEvents listenerEffects_activated sessions_onDidChangeConfiguration
          afterEvents_fields activated_fields)
qed

section \<open>The Compose service disabled by configuration\<close>

text \<open>
  Claim C4. When \<open>docker.enableDockerComposeLanguageService\<close> is false, the Compose
  activation callback throws \<open>UserCancelledError('languageServiceDisabled')\<close> and
  leaves the state as it found it: no client is constructed, assigned or started. The
  activation as a whole records that error as handled and does nothing else; after
  \<open>activateInternal\<close> the Compose variable is unassigned and the only sessions
  created and started are those of the Dockerfile backend.
\<close>

theorem compose_disabled_raises_before_any_client:
  assumes "docker_enableDockerComposeLanguageService (configuration w) = Some False"
  shows "composeCallback w s = (Inl (UserCancelledError ''languageServiceDisabled''), s)
       \<and> activateComposeLanguageClient w s =
           emit (HandledError ''docker.composelanguageclient.activate''
                   (UserCancelledError ''languageServiceDisabled'')) s
       \<and> composeLanguageClient (activated w) = None
       \<and> filter isLifecycle (effects (activated w)) =
           (if nativeAvailable w
            then [NewLanguageClient ''dockerLanguageClient'', Start ''dockerLanguageClient'']
            else [NewLanguageClient ''dockerfile-langserver'', Start ''dockerfile-langserver''])"
proof -
  have cb: "composeCallback w s = (Inl (UserCancelledError ''languageServiceDisabled''), s)"
    using assms by (simp add: composeCallback_def get_or_default_def)
  have act: "activateComposeLanguageClient w s =
           emit (HandledError ''docker.composelanguageclient.activate''
                   (UserCancelledError ''languageServiceDisabled'')) s"
    by (simp add: activateComposeLanguageClient_def callWithTelemetryAndErrorHandling_def cb)
  have off: "\<not> composeEnabled w"
    using assms by (simp add: composeEnabled_def get_or_default_def)
  show ?thesis
    by (simp add: cb act activated_fields off)
qed

text \<open>The hypothesis of C4 holds in a world whose configuration sets the flag to false.\<close>

theorem compose_disabled_raises_before_any_client_witness:
  "docker_enableDockerComposeLanguageService
     (configuration (quietWorld (Inr JNull)
        (defaultSettings\<lparr>docker_enableDockerComposeLanguageService := Some False\<rparr>))) = Some False
   \<and> composeCallback (quietWorld (Inr JNull)
        (defaultSettings\<lparr>docker_enableDockerComposeLanguageService := Some False\<rparr>)) initialState
       = (Inl (UserCancelledError ''languageServiceDisabled''), initialState)
   \<and> composeLanguageClient (activated (quietWorld (Inr JNull)
        (defaultSettings\<lparr>docker_enableDockerComposeLanguageService := Some False\<rparr>))) = None"
proof -
  have h: "docker_enableDockerComposeLanguageService
     (configuration (quietWorld (Inr JNull)
        (defaultSettings\<lparr>docker_enableDockerComposeLanguageService := Some False\<rparr>))) = Some False"
    by (simp add: quietWorld_def)
  from compose_disabled_raises_before_any_client [OF h, of initialState] h show ?thesis by simp
qed

section \<open>The native backend's identity flags\<close>

lemma pushFlag_spec: "pushFlag flag v args = args @ specFlag flag v"
  by (cases v) (simp_all add: pushFlag_def specFlag_def)

text \<open>
  Claim C10. The argument list the native command is built with is \<open>lsp\<close>,
  \<open>listen\<close>, then \<open>--user\<close> with its value if and only if \<open>DockerLsp.User\<close> is
  defined and not the empty string, then \<open>--workspace\<close> with its value if and only if
  \<open>DockerLsp.Workspace\<close> is defined and not the empty string. An empty string gives
  the same argument list as an absent setting.
\<close>

theorem identity_flag_iff_defined_and_nonempty:
  "nativeArgs cfg = [''lsp'', ''listen''] @ specFlag ''--user'' (DockerLsp_User cfg)
                      @ specFlag ''--workspace'' (DockerLsp_Workspace cfg)
   \<and> (\<exists>cmd. run (nativeServerOptions cfg) = Executable cmd stdio (nativeArgs cfg))
   \<and> nativeArgs (cfg\<lparr>DockerLsp_User := Some ''''\<rparr>) = nativeArgs (cfg\<lparr>DockerLsp_User := None\<rparr>)
   \<and> nativeArgs (cfg\<lparr>DockerLsp_Workspace := Some ''''\<rparr>) = nativeArgs (cfg\<lparr>DockerLsp_Workspace := None\<rparr>)
   \<and> (\<exists>u rest. nativeArgs cfg = [''lsp'', ''listen'', ''--user'', u] @ rest)
       = (DockerLsp_User cfg \<noteq> None \<and> DockerLsp_User cfg \<noteq> Some '''')
   \<and> (\<exists>front x. nativeArgs cfg = front @ [''--workspace'', x])
       = (DockerLsp_Workspace cfg \<noteq> None \<and> DockerLsp_Workspace cfg \<noteq> Some '''')"
  by (auto simp add: nativeArgs_def pushFlag_spec specFlag_def nativeServerOptions_def Let_def)

section \<open>Merging a telemetry event into the context\<close>

text \<open>
  Claim C6 says that the merge never overwrites an entry already present. The merge
  is \<open>Object.assign\<close>, which does overwrite: a context holding the measurement
  \<open>duration = 1\<close> and an event carrying \<open>duration = 2\<close> end with \<open>duration = 2\<close>.
\<close>

theorem telemetry_merge_overwrites_counterexample:
  "measurements
     (composeTelemetryListener
        \<lparr>properties = Map.empty, measurements = [''duration'' \<mapsto> (1::int)],
         suppressAll = None, suppressIfSuccessful = None\<rparr>
        \<lparr>eventName = ''parse'', eventSuppressAll = None, eventSuppressIfSuccessful = None,
         eventMeasurements = Some [''duration'' \<mapsto> 2], eventProperties = None\<rparr>)
     ''duration'' = Some 2
   \<and> measurements
     \<lparr>properties = Map.empty, measurements = [''duration'' \<mapsto> (1::int)],
      suppressAll = None, suppressIfSuccessful = None\<rparr> ''duration'' = Some 1"
  by (simp add: composeTelemetryListener_def Let_def Object_assign_def)

text \<open>
  Claim C6 as amended. The two suppress flags of the context become the event's. For
  every key, the context's measurement afterwards is the event's when the event has
  one and the context's own otherwise; the same holds for the properties, where the
  key \<open>langServerEventName\<close> holds the event name unless the event's own properties
  carry that key.
\<close>

theorem telemetry_merge_event_entries_win:
  "suppressAll (composeTelemetryListener t ev) = eventSuppressAll ev
   \<and> suppressIfSuccessful (composeTelemetryListener t ev) = eventSuppressIfSuccessful ev
   \<and> measurements (composeTelemetryListener t ev) k =
       (case entries (eventMeasurements ev) k of
          Some v \<Rightarrow> Some v
        | None \<Rightarrow> measurements t k)
   \<and> properties (composeTelemetryListener t ev) k =
       (case entries (eventProperties ev) k of
          Some v \<Rightarrow> Some v
        | None \<Rightarrow> if k = ''langServerEventName'' then Some (eventName ev) else properties t k)"
  by (simp add: composeTelemetryListener_def Let_def Object_assign_def entries_def map_add_def
        split: option.split)

section \<open>How the backends are launched\<close>

text \<open>
  Claim C8. The native client, which exists exactly when discovery succeeded, runs the
  executable \<open>docker.dockerPath\<close> (\<open>docker\<close> when the setting is absent or empty)
  over standard I/O with the arguments \<open>lsp\<close>, \<open>listen\<close>, then \<open>--user\<close> and
  the value of \<open>DockerLsp.User\<close> when that setting is defined and not empty, then
  \<open>--workspace\<close> and the value of \<open>DockerLsp.Workspace\<close> when that setting is
  defined and not empty. The fallback Dockerfile client and
  the Compose client run the bundled \<open>server.js\<close> of their package under \<open>dist\<close> as
  a Node module over IPC with the single argument \<open>--node-ipc\<close>.
\<close>
theorem backends_launch_commands:
  "map_option (run \<circ> serverOptions) (nativeClient (activated w)) =
     (if nativeAvailable w
      then Some (Executable
                   (if docker_dockerPath (configuration w) \<in> {None, Some ''''} then ''docker''
                    else the (docker_dockerPath (configuration w)))
                   stdio
                   ([''lsp'', ''listen'']
                    @ specFlag ''--user'' (DockerLsp_User (configuration w))
                    @ specFlag ''--workspace'' (DockerLsp_Workspace (configuration w))))
      else None)
   \<and> map_option (run \<circ> serverOptions) (dockerfileLanguageClient (activated w)) =
     (if nativeAvailable w then None
      else Some (NodeModule
                   (asAbsolutePath w (''dist'' @ pathSep w @ ''dockerfile-language-server-nodejs''
                                        @ pathSep w @ ''lib'' @ pathSep w @ ''server.js''))
                   ipc (Some [''--node-ipc'']) None))
   \<and> map_option (run \<circ> serverOptions) (composeLanguageClient (activated w)) =
     (if composeEnabled w
      then Some (NodeModule
                   (asAbsolutePath w (''dist'' @ pathSep w @ ''compose-language-service''
                                        @ pathSep w @ ''lib'' @ pathSep w @ ''server.js''))
                   ipc (Some [''--node-ipc'']) None)
      else None)"
proof -
  have args: "nativeArgs c = [''lsp'', ''listen''] @ specFlag ''--user'' (DockerLsp_User c)
                               @ specFlag ''--workspace'' (DockerLsp_Workspace c)" for c
    by (simp add: nativeArgs_def pushFlag_spec)
  have native: "run (serverOptions (newNativeClient c)) =
      Executable (if docker_dockerPath c \<in> {None, Some ''''} then ''docker'' else the (docker_dockerPath c))
        stdio ([''lsp'', ''listen''] @ specFlag ''--user'' (DockerLsp_User c)
                 @ specFlag ''--workspace'' (DockerLsp_Workspace c))" for c
    by (cases "docker_dockerPath c")
       (simp_all add: newNativeClient_def nativeServerOptions_def Let_def or_else_def args)
  have bundled: "run (bundledServerOptions w p) =
      NodeModule (asAbsolutePath w (''dist'' @ pathSep w @ p @ pathSep w @ ''lib'' @ pathSep w @ ''server.js''))
        ipc (Some [''--node-ipc'']) None" for p
    by (simp add: bundledServerOptions_def Let_def)
  have "map_option (run \<circ> serverOptions) (nativeClient (activated w)) =
     (if nativeAvailable w
      then Some (Executable
                   (if docker_dockerPath (configuration w) \<in> {None, Some ''''} then ''docker''
                    else the (docker_dockerPath (configuration w)))
                   stdio
                   ([''lsp'', ''listen'']
                    @ specFlag ''--user'' (DockerLsp_User (configuration w))
                    @ specFlag ''--workspace'' (DockerLsp_Workspace (configuration w))))
      else None)"
    by (simp add: activated_fields native)
  moreover have "map_option (run \<circ> serverOptions) (dockerfileLanguageClient (activated w)) =
     (if nativeAvailable w then None
      else Some (NodeModule
                   (asAbsolutePath w (''dist'' @ pathSep w @ ''dockerfile-language-server-nodejs''
                                        @ pathSep w @ ''lib'' @ pathSep w @ ''server.js''))
                   ipc (Some [''--node-ipc'']) None))"
    by (simp add: activated_fields newDockerfileClient_def bundled)
  moreover have "map_option (run \<circ> serverOptions) (composeLanguageClient (activated w)) =
     (if composeEnabled w
      then Some (NodeModule
                   (asAbsolutePath w (''dist'' @ pathSep w @ ''compose-language-service''
                                        @ pathSep w @ ''lib'' @ pathSep w @ ''server.js''))
                   ipc (Some [''--node-ipc'']) None)
      else None)"
    by (simp add: activated_fields newComposeClient_def bundled)
  ultimately show ?thesis by blast
qed

section \<open>Deactivation after an activation\<close>

lemma deactivateInternal_eq:
  "deactivateInternal w s =
     (case deactivateCallback w s of
        (Inr u, s') \<Rightarrow> (Inr u, s')
      | (Inl e, s') \<Rightarrow> (Inr (), emit (HandledError ''docker.deactivate'' e) s'))"
  by (simp add: deactivateInternal_def callWithTelemetryAndErrorHandling_def split: prod.split sum.split)

lemma deactivateCallback_no_dockerfile:
  "dockerfileLanguageClient s = None \<Longrightarrow> deactivateCallback w s = (Inl TypeError, s)"
  by (simp add: deactivateCallback_def)

lemma deactivateCallback_no_native:
  "dockerfileLanguageClient s = Some d \<Longrightarrow> composeLanguageClient s = Some c \<Longrightarrow> nativeClient s = None
   \<Longrightarrow> deactivateCallback w s =
        (Inl TypeError,
         s\<lparr>dockerfileLanguageClient := Some (stopping d), composeLanguageClient := Some (stopping c),
           effects := effects s @ [Stop (clientId d), Stop (clientId c)]\<rparr>)"
  by (simp add: deactivateCallback_def Let_def emit_def)

lemma deactivateCallback_no_compose:
  "dockerfileLanguageClient s = Some d \<Longrightarrow> composeLanguageClient s = None
   \<Longrightarrow> deactivateCallback w s =
        (Inl TypeError,
         s\<lparr>dockerfileLanguageClient := Some (stopping d), effects := effects s @ [Stop (clientId d)]\<rparr>)"
  by (simp add: deactivateCallback_def Let_def emit_def)

text \<open>
  \<open>deactivateInternal\<close> itself never throws: the wrapper handles what the callback
  throws. But after any activation the callback does throw, because one of the three
  variables is unassigned.
\<close>

lemma deactivateInternal_returns_normally: "fst (deactivateInternal w s) = Inr ()"
  by (simp add: deactivateInternal_eq split: prod.split sum.split)

lemma deactivateCallback_after_activation_throws:
  "fst (deactivateCallback w (activated w)) = Inl TypeError"
proof (cases "nativeAvailable w")
  case True
  then show ?thesis
    by (simp add: deactivateCallback_no_dockerfile activated_fields)
next
  case False
  show ?thesis
  proof (cases "composeEnabled w")
    case True
    with False show ?thesis
      by (subst deactivateCallback_no_native) (simp_all add: activated_fields)
  next
    case no: False
    with False show ?thesis
      by (subst deactivateCallback_no_compose) (simp_all add: activated_fields)
  qed
qed

text \<open>
  Claim C2 says that deactivation stops every active session and waits for every stop.
  The callback of \<open>deactivateInternal\<close> calls \<open>stop()\<close> on all three client
  variables, and after any activation one of the two Dockerfile variables is still
  \<open>undefined\<close>, so the callback always ends in a \<open>TypeError\<close> before
  \<open>Promise.all\<close> is reached. The error is handled and \<open>deactivateInternal\<close> returns
  normally. After an activation with the native backend, deactivation calls no
  \<open>stop()\<close> at all and both sessions are still running; after one with the fallback
  backend, \<open>stop()\<close> is called on the fallback and the Compose client, neither call is
  awaited, and both are left stopping.
\<close>

theorem deactivation_stops_are_never_awaited:
  "fst (deactivateInternal (quietWorld (Inr (JBool True)) defaultSettings)
          (activated (quietWorld (Inr (JBool True)) defaultSettings))) = Inr ()
   \<and> newEffects (activated (quietWorld (Inr (JBool True)) defaultSettings))
        (snd (deactivateInternal (quietWorld (Inr (JBool True)) defaultSettings)
                (activated (quietWorld (Inr (JBool True)) defaultSettings))))
       = [HandledError ''docker.deactivate'' TypeError]
   \<and> map (\<lambda>c. (clientId c, clientState c))
        (sessions (snd (deactivateInternal (quietWorld (Inr (JBool True)) defaultSettings)
                          (activated (quietWorld (Inr (JBool True)) defaultSettings)))))
       = [(''dockerLanguageClient'', Running), (''compose-language-service'', Running)]
   \<and> newEffects (activated (quietWorld (Inr (JBool False)) defaultSettings))
        (snd (deactivateInternal (quietWorld (Inr (JBool False)) defaultSettings)
                (activated (quietWorld (Inr (JBool False)) defaultSettings))))
       = [Stop ''dockerfile-langserver'', Stop ''compose-language-service'',
          HandledError ''docker.deactivate'' TypeError]
   \<and> map (\<lambda>c. (clientId c, clientState c))
        (sessions (snd (deactivateInternal (quietWorld (Inr (JBool False)) defaultSettings)
                          (activated (quietWorld (Inr (JBool False)) defaultSettings)))))
       = [(''dockerfile-langserver'', Stopping), (''compose-language-service'', Stopping)]"
proof -
  let ?W = "quietWorld (Inr (JBool True)) defaultSettings"
  let ?V = "quietWorld (Inr (JBool False)) defaultSettings"
  have W: "nativeAvailable ?W" "composeEnabled ?W" "startOutcome ?W = (\<lambda>_. Inr ())"
    by (simp_all add: nativeAvailable_def composeEnabled_def quietWorld_def defaultSettings_def get_or_default_def)
  have V: "\<not> nativeAvailable ?V" "composeEnabled ?V" "startOutcome ?V = (\<lambda>_. Inr ())"
    by (simp_all add: nativeAvailable_def composeEnabled_def quietWorld_def defaultSettings_def get_or_default_def)
  have dW: "deactivateCallback ?W (activated ?W) = (Inl TypeError, activated ?W)"
    by (rule deactivateCallback_no_dockerfile) (simp add: activated_fields W)
  have dV: "deactivateCallback ?V (activated ?V) =
        (Inl TypeError,
         (activated ?V)\<lparr>dockerfileLanguageClient := Some (stopping ((newDockerfileClient ?V)\<lparr>clientState := Running\<rparr>)),
           composeLanguageClient := Some (stopping ((newComposeClient ?V)\<lparr>clientState := Running\<rparr>)),
           effects := effects (activated ?V) @ [Stop ''dockerfile-langserver'', Stop ''compose-language-service'']\<rparr>)"
  proof -
    have d: "dockerfileLanguageClient (activated ?V) = Some ((newDockerfileClient ?V)\<lparr>clientState := Running\<rparr>)"
      by (simp add: activated_fields V)
    have c: "composeLanguageClient (activated ?V) = Some ((newComposeClient ?V)\<lparr>clientState := Running\<rparr>)"
      by (simp add: activated_fields V)
    have n: "nativeClient (activated ?V) = None"
      by (simp add: activated_fields V)
    show ?thesis
      using deactivateCallback_no_native [OF d c n, of ?V] by (simp add: clientIds)
  qed
  have "fst (deactivateInternal ?W (activated ?W)) = Inr ()"
    by (simp add: deactivateInternal_eq dW)
  moreover have "newEffects (activated ?W) (snd (deactivateInternal ?W (activated ?W)))
       = [HandledError ''docker.deactivate'' TypeError]"
    by (simp add: deactivateInternal_eq dW newEffects_def emit_def)
  moreover have "map (\<lambda>c. (clientId c, clientState c)) (sessions (snd (deactivateInternal ?W (activated ?W))))
       = [(''dockerLanguageClient'', Running), (''compose-language-service'', Running)]"
    by (simp add: deactivateInternal_eq dW emit_def sessions_def dockerfileCapableSessions_def clientOf_def
          activated_fields W clientIds)
  moreover have "newEffects (activated ?V) (snd (deactivateInternal ?V (activated ?V)))
       = [Stop ''dockerfile-langserver'', Stop ''compose-language-service'',
          HandledError ''docker.deactivate'' TypeError]"
    by (simp add: deactivateInternal_eq dV newEffects_def emit_def)
  moreover have "map (\<lambda>c. (clientId c, clientState c)) (sessions (snd (deactivateInternal ?V (activated ?V))))
       = [(''dockerfile-langserver'', Stopping), (''compose-language-service'', Stopping)]"
    by (simp add: deactivateInternal_eq dV emit_def sessions_def dockerfileCapableSessions_def clientOf_def
          activated_fields V clientIds stopping_def)
  ultimately show ?thesis by simp
qed

end
